theory Spec2Isabelle
  imports Main "HOL-Library.Word"
begin

section \<open>Pointers, exceptions and the native call log\<close>

text \<open>
  An \<^verbatim>\<open>mxArray*\<close> is an address; \<open>0\<close> is \<^verbatim>\<open>nullptr\<close>. A \<^verbatim>\<open>const char*\<close>
  argument is a \<open>string option\<close>, \<open>None\<close> being the null pointer.
\<close>

type_synonym ptr = nat

abbreviation nullptr :: ptr where
  "nullptr \<equiv> 0"

type_synonym cstr = "string option"

text \<open>
  \<^verbatim>\<open>mx::Exception\<close> is built either from a message alone or from an identifier and a
  message (\<^verbatim>\<open>Exception{id, "..."}\<close>). A function that may throw returns
  \<open>Exception + 'a\<close>, \<open>Inl\<close> being the throw.
\<close>

datatype Exception = Exception string | ExceptionId string string

definition and_then :: "Exception + 'a \<Rightarrow> ('a \<Rightarrow> Exception + 'b) \<Rightarrow> Exception + 'b" where
  "and_then r f = (case r of Inl e \<Rightarrow> Inl e | Inr x \<Rightarrow> f x)"

text \<open>
  The functions of the MATLAB runtime are not part of the library: every wrapper takes the
  native function it forwards to as a parameter, named as in the C API. A native function
  with an effect is a function of the calls made so far and of its arguments, and the
  wrapper appends the call to the log.
\<close>

datatype call =
    MxDuplicateArray ptr ptr
  | MxDestroyArray ptr
  | MxSetClassName ptr string int
  | MexPutVariable string string ptr int
  | MexGetVariable string string ptr
  | MexGetVariablePtr string string ptr
  | MxCreateCharArray nat "nat list" ptr

section \<open>Array.hpp: the owning handle\<close>

record Array =
  mArray :: ptr

text \<open>\<^verbatim>\<open>View<T>{data, size}\<close>: a pointer and a length.\<close>

record View =
  view_data :: ptr
  view_size :: nat

text \<open>\<^verbatim>\<open>static_cast<ClassId>(mxGetClassID(...))\<close> keeps the value of the native enumerator.\<close>

datatype ClassId = ClassId int

definition isValid :: "Array \<Rightarrow> bool" where
  "isValid a = (mArray a \<noteq> nullptr)"

definition checkValid :: "string \<Rightarrow> Array \<Rightarrow> Exception + unit" where
  "checkValid ident a =
     (if \<not> isValid a then Inl (ExceptionId ident ''accessing invalid array'') else Inr ())"

definition getRank :: "(ptr \<Rightarrow> nat) \<Rightarrow> Array \<Rightarrow> Exception + nat" where
  "getRank mxGetNumberOfDimensions a =
     and_then (checkValid ''matlabw:mx:Array:getRank'' a)
       (\<lambda>_. Inr (mxGetNumberOfDimensions (mArray a)))"

definition getDims :: "(ptr \<Rightarrow> ptr) \<Rightarrow> (ptr \<Rightarrow> nat) \<Rightarrow> Array \<Rightarrow> Exception + View" where
  "getDims mxGetDimensions mxGetNumberOfDimensions a =
     and_then (checkValid ''matlabw:mx:Array:getDims'' a)
       (\<lambda>_. and_then (getRank mxGetNumberOfDimensions a)
          (\<lambda>rank. Inr \<lparr>view_data = mxGetDimensions (mArray a), view_size = rank\<rparr>))"

definition getDimM :: "(ptr \<Rightarrow> nat) \<Rightarrow> Array \<Rightarrow> Exception + nat" where
  "getDimM mxGetM a =
     and_then (checkValid ''matlabw:mx:Array:getDimM'' a) (\<lambda>_. Inr (mxGetM (mArray a)))"

definition getDimN :: "(ptr \<Rightarrow> nat) \<Rightarrow> Array \<Rightarrow> Exception + nat" where
  "getDimN mxGetN a =
     and_then (checkValid ''matlabw:mx:Array:getDimN'' a) (\<lambda>_. Inr (mxGetN (mArray a)))"

definition getSize :: "(ptr \<Rightarrow> nat) \<Rightarrow> Array \<Rightarrow> Exception + nat" where
  "getSize mxGetNumberOfElements a =
     and_then (checkValid ''matlabw:mx:Array:getSize'' a)
       (\<lambda>_. Inr (mxGetNumberOfElements (mArray a)))"

definition getSizeOfElement :: "(ptr \<Rightarrow> nat) \<Rightarrow> Array \<Rightarrow> Exception + nat" where
  "getSizeOfElement mxGetElementSize a =
     and_then (checkValid ''matlabw:mx:Array:getSizeOfElement'' a)
       (\<lambda>_. Inr (mxGetElementSize (mArray a)))"

definition isGpuArray :: "(ptr \<Rightarrow> bool) \<Rightarrow> Array \<Rightarrow> Exception + bool" where
  "isGpuArray mxIsGPUArray a =
     and_then (checkValid ''matlabw:mx:Array:isGpuArray'' a) (\<lambda>_. Inr (mxIsGPUArray (mArray a)))"

definition isNumeric :: "(ptr \<Rightarrow> bool) \<Rightarrow> Array \<Rightarrow> Exception + bool" where
  "isNumeric mxIsNumeric a =
     and_then (checkValid ''matlabw:mx:Array:isNumeric'' a) (\<lambda>_. Inr (mxIsNumeric (mArray a)))"

definition isComplex :: "(ptr \<Rightarrow> bool) \<Rightarrow> Array \<Rightarrow> Exception + bool" where
  "isComplex mxIsComplex a =
     and_then (checkValid ''matlabw:mx:Array:isComplex'' a) (\<lambda>_. Inr (mxIsComplex (mArray a)))"

definition isEmpty :: "(ptr \<Rightarrow> bool) \<Rightarrow> Array \<Rightarrow> Exception + bool" where
  "isEmpty mxIsEmpty a =
     and_then (checkValid ''matlabw:mx:Array:isEmpty'' a) (\<lambda>_. Inr (mxIsEmpty (mArray a)))"

definition isScalar :: "(ptr \<Rightarrow> bool) \<Rightarrow> Array \<Rightarrow> Exception + bool" where
  "isScalar mxIsScalar a =
     and_then (checkValid ''matlabw:mx:Array:isScalar'' a) (\<lambda>_. Inr (mxIsScalar (mArray a)))"

definition isDouble :: "(ptr \<Rightarrow> bool) \<Rightarrow> Array \<Rightarrow> Exception + bool" where
  "isDouble mxIsDouble a =
     and_then (checkValid ''matlabw:mx:Array:isDouble'' a) (\<lambda>_. Inr (mxIsDouble (mArray a)))"

definition isSingle :: "(ptr \<Rightarrow> bool) \<Rightarrow> Array \<Rightarrow> Exception + bool" where
  "isSingle mxIsSingle a =
     and_then (checkValid ''matlabw:mx:Array:isSingle'' a) (\<lambda>_. Inr (mxIsSingle (mArray a)))"

definition isInt8 :: "(ptr \<Rightarrow> bool) \<Rightarrow> Array \<Rightarrow> Exception + bool" where
  "isInt8 mxIsInt8 a =
     and_then (checkValid ''matlabw:mx:Array:isInt8'' a) (\<lambda>_. Inr (mxIsInt8 (mArray a)))"

definition isUint8 :: "(ptr \<Rightarrow> bool) \<Rightarrow> Array \<Rightarrow> Exception + bool" where
  "isUint8 mxIsUint8 a =
     and_then (checkValid ''matlabw:mx:Array:isUint8'' a) (\<lambda>_. Inr (mxIsUint8 (mArray a)))"

definition isInt16 :: "(ptr \<Rightarrow> bool) \<Rightarrow> Array \<Rightarrow> Exception + bool" where
  "isInt16 mxIsInt16 a =
     and_then (checkValid ''matlabw:mx:Array:isInt16'' a) (\<lambda>_. Inr (mxIsInt16 (mArray a)))"

definition isUint16 :: "(ptr \<Rightarrow> bool) \<Rightarrow> Array \<Rightarrow> Exception + bool" where
  "isUint16 mxIsUint16 a =
     and_then (checkValid ''matlabw:mx:Array:isUint16'' a) (\<lambda>_. Inr (mxIsUint16 (mArray a)))"

definition isInt32 :: "(ptr \<Rightarrow> bool) \<Rightarrow> Array \<Rightarrow> Exception + bool" where
  "isInt32 mxIsInt32 a =
     and_then (checkValid ''matlabw:mx:Array:isInt32'' a) (\<lambda>_. Inr (mxIsInt32 (mArray a)))"

definition isUint32 :: "(ptr \<Rightarrow> bool) \<Rightarrow> Array \<Rightarrow> Exception + bool" where
  "isUint32 mxIsUint32 a =
     and_then (checkValid ''matlabw:mx:Array:isUint32'' a) (\<lambda>_. Inr (mxIsUint32 (mArray a)))"

definition isInt64 :: "(ptr \<Rightarrow> bool) \<Rightarrow> Array \<Rightarrow> Exception + bool" where
  "isInt64 mxIsInt64 a =
     and_then (checkValid ''matlabw:mx:Array:isInt64'' a) (\<lambda>_. Inr (mxIsInt64 (mArray a)))"

definition isUint64 :: "(ptr \<Rightarrow> bool) \<Rightarrow> Array \<Rightarrow> Exception + bool" where
  "isUint64 mxIsUint64 a =
     and_then (checkValid ''matlabw:mx:Array:isUint64'' a) (\<lambda>_. Inr (mxIsUint64 (mArray a)))"

definition isSparse :: "(ptr \<Rightarrow> bool) \<Rightarrow> Array \<Rightarrow> Exception + bool" where
  "isSparse mxIsSparse a =
     and_then (checkValid ''matlabw:mx:Array:isSparse'' a) (\<lambda>_. Inr (mxIsSparse (mArray a)))"

definition isChar :: "(ptr \<Rightarrow> bool) \<Rightarrow> Array \<Rightarrow> Exception + bool" where
  "isChar mxIsChar a =
     and_then (checkValid ''matlabw:mx:Array:isChar'' a) (\<lambda>_. Inr (mxIsChar (mArray a)))"

definition isLogical :: "(ptr \<Rightarrow> bool) \<Rightarrow> Array \<Rightarrow> Exception + bool" where
  "isLogical mxIsLogical a =
     and_then (checkValid ''matlabw:mx:Array:isLogical'' a) (\<lambda>_. Inr (mxIsLogical (mArray a)))"

definition isLogicalScalar :: "(ptr \<Rightarrow> bool) \<Rightarrow> Array \<Rightarrow> Exception + bool" where
  "isLogicalScalar mxIsLogicalScalar a =
     and_then (checkValid ''matlabw:mx:Array:isLogicalScalar'' a)
       (\<lambda>_. Inr (mxIsLogicalScalar (mArray a)))"

definition isLogicalScalarTrue :: "(ptr \<Rightarrow> bool) \<Rightarrow> Array \<Rightarrow> Exception + bool" where
  "isLogicalScalarTrue mxIsLogicalScalarTrue a =
     and_then (checkValid ''matlabw:mx:Array:isLogicalScalarTrue'' a)
       (\<lambda>_. Inr (mxIsLogicalScalarTrue (mArray a)))"

text \<open>\<^verbatim>\<open>isClass(const char* name)\<close> has a second guard, on the name.\<close>

definition isClass :: "(ptr \<Rightarrow> string \<Rightarrow> bool) \<Rightarrow> Array \<Rightarrow> cstr \<Rightarrow> Exception + bool" where
  "isClass mxIsClass a name =
     and_then (checkValid ''matlabw:mx:Array:isClass'' a)
       (\<lambda>_. case name of
               None \<Rightarrow> Inl (Exception ''invalid class name'')
             | Some n \<Rightarrow> Inr (mxIsClass (mArray a) n))"

definition isStruct :: "(ptr \<Rightarrow> bool) \<Rightarrow> Array \<Rightarrow> Exception + bool" where
  "isStruct mxIsStruct a =
     and_then (checkValid ''matlabw:mx:Array:isStruct'' a) (\<lambda>_. Inr (mxIsStruct (mArray a)))"

definition isCell :: "(ptr \<Rightarrow> bool) \<Rightarrow> Array \<Rightarrow> Exception + bool" where
  "isCell mxIsCell a =
     and_then (checkValid ''matlabw:mx:Array:isCell'' a) (\<lambda>_. Inr (mxIsCell (mArray a)))"

definition getClassId :: "(ptr \<Rightarrow> int) \<Rightarrow> Array \<Rightarrow> Exception + ClassId" where
  "getClassId mxGetClassID a =
     and_then (checkValid ''matlabw:mx:Array:getClassId'' a)
       (\<lambda>_. Inr (ClassId (mxGetClassID (mArray a))))"

definition getClassName :: "(ptr \<Rightarrow> cstr) \<Rightarrow> Array \<Rightarrow> Exception + cstr" where
  "getClassName mxGetClassName a =
     and_then (checkValid ''matlabw:mx:Array:getClassName'' a)
       (\<lambda>_. Inr (mxGetClassName (mArray a)))"

definition getData :: "(ptr \<Rightarrow> ptr) \<Rightarrow> Array \<Rightarrow> Exception + ptr" where
  "getData mxGetData a =
     and_then (checkValid ''matlabw:mx:Array:getData'' a) (\<lambda>_. Inr (mxGetData (mArray a)))"

subsection \<open>Ownership: construction, destruction, assignment\<close>

text \<open>
  \<^verbatim>\<open>mxDuplicateArray\<close> allocates: its result is a function of the calls made so far and of
  the pointer it copies; \<open>nullptr\<close> is its failure.
\<close>

type_synonym duplicator = "call list \<Rightarrow> ptr \<Rightarrow> ptr"

text \<open>\<^verbatim>\<open>release()\<close>: \<^verbatim>\<open>std::exchange(mArray, nullptr)\<close>; the old pointer and the handle after.\<close>

definition release :: "Array \<Rightarrow> ptr \<times> Array" where
  "release a = (mArray a, a\<lparr>mArray := nullptr\<rparr>)"

text \<open>\<^verbatim>\<open>destroy()\<close>: \<^verbatim>\<open>mxDestroyArray(release())\<close>, the null pointer included.\<close>

definition destroy :: "Array \<Rightarrow> call list \<Rightarrow> Array \<times> call list" where
  "destroy a log = (case release a of (p, a') \<Rightarrow> (a', log @ [MxDestroyArray p]))"

definition duplicateArray ::
  "duplicator \<Rightarrow> ptr \<Rightarrow> call list \<Rightarrow> (Exception + ptr) \<times> call list" where
  "duplicateArray mxDuplicateArray array log =
     (if array \<noteq> nullptr then
        (let arrayDup = mxDuplicateArray log array;
             log' = log @ [MxDuplicateArray array arrayDup]
         in if arrayDup = nullptr
            then (Inl (Exception ''failed to duplicate array''), log')
            else (Inr arrayDup, log'))
      else (Inr nullptr, log))"

text \<open>The constructors: default, from a raw pointer, copy (from \<^verbatim>\<open>other.get()\<close>), move.\<close>

definition Array_default :: Array where
  "Array_default = \<lparr>mArray = nullptr\<rparr>"

definition Array_from_ptr :: "ptr \<Rightarrow> Array" where
  "Array_from_ptr array = \<lparr>mArray = array\<rparr>"

text \<open>
  The three copy constructors (from \<^verbatim>\<open>Array\<close>, \<^verbatim>\<open>ArrayRef\<close>, \<^verbatim>\<open>ArrayCref\<close>) have one
  body, \<^verbatim>\<open>Array{duplicateArray(other.get())}\<close>; \<open>other\<close> is the pointer \<^verbatim>\<open>other.get()\<close>.
\<close>

definition Array_copy ::
  "duplicator \<Rightarrow> ptr \<Rightarrow> call list \<Rightarrow> (Exception + Array) \<times> call list" where
  "Array_copy mxDuplicateArray other log =
     (case duplicateArray mxDuplicateArray other log of
        (Inl e, log') \<Rightarrow> (Inl e, log')
      | (Inr p, log') \<Rightarrow> (Inr (Array_from_ptr p), log'))"

text \<open>The move constructor: the new handle, and \<open>other\<close> after \<^verbatim>\<open>other.release()\<close>.\<close>

definition Array_move :: "Array \<Rightarrow> Array \<times> Array" where
  "Array_move other = (case release other of (p, other') \<Rightarrow> (\<lparr>mArray = p\<rparr>, other'))"

text \<open>
  The three copy assignments have one body. The result is the thrown exception if any, the
  target after the call and the log: on a throw the target keeps the state \<open>destroy\<close> left.
  The source is only read through \<^verbatim>\<open>other.get()\<close>, and when it is the target itself the
  pointers are equal and nothing is done, so the source is passed as its pointer.
\<close>

definition copy_assign ::
  "duplicator \<Rightarrow> Array \<Rightarrow> ptr \<Rightarrow> call list \<Rightarrow> (Exception + unit) \<times> Array \<times> call list" where
  "copy_assign mxDuplicateArray this other log =
     (if mArray this \<noteq> other then
        (case destroy this log of
           (this1, log1) \<Rightarrow>
             (case duplicateArray mxDuplicateArray other log1 of
                (Inl e, log2) \<Rightarrow> (Inl e, this1, log2)
              | (Inr p, log2) \<Rightarrow> (Inr (), this1\<lparr>mArray := p\<rparr>, log2)))
      else (Inr (), this, log))"

text \<open>
  Move assignment compares the addresses of the two objects, so the handles live in a
  store, from the address of an \<^verbatim>\<open>Array\<close> object to its value.
\<close>

type_synonym addr = nat

type_synonym objects = "addr \<Rightarrow> Array"

definition move_assign :: "addr \<Rightarrow> addr \<Rightarrow> objects \<Rightarrow> call list \<Rightarrow> objects \<times> call list" where
  "move_assign this other objs log =
     (if this \<noteq> other then
        (case destroy (objs this) log of
           (this1, log1) \<Rightarrow>
             (let objs1 = objs(this := this1) in
              case release (objs1 other) of
                (p, other1) \<Rightarrow>
                  (let objs2 = objs1(other := other1)
                   in (objs2(this := (objs2 this)\<lparr>mArray := p\<rparr>), log1))))
      else (objs, log))"

text \<open>The other operations, on an object of the store.\<close>

definition construct_move :: "addr \<Rightarrow> addr \<Rightarrow> objects \<Rightarrow> objects" where
  "construct_move this other objs =
     (case Array_move (objs other) of (new, other1) \<Rightarrow> (objs(other := other1))(this := new))"

definition construct_copy ::
  "duplicator \<Rightarrow> addr \<Rightarrow> ptr \<Rightarrow> objects \<Rightarrow> call list \<Rightarrow> (Exception + unit) \<times> objects \<times> call list" where
  "construct_copy mxDuplicateArray this other objs log =
     (case Array_copy mxDuplicateArray other log of
        (Inl e, log') \<Rightarrow> (Inl e, objs, log')
      | (Inr a, log') \<Rightarrow> (Inr (), objs(this := a), log'))"

definition assign_copy ::
  "duplicator \<Rightarrow> addr \<Rightarrow> ptr \<Rightarrow> objects \<Rightarrow> call list \<Rightarrow> (Exception + unit) \<times> objects \<times> call list" where
  "assign_copy mxDuplicateArray this other objs log =
     (case copy_assign mxDuplicateArray (objs this) other log of
        (r, this1, log') \<Rightarrow> (r, objs(this := this1), log'))"

definition release_at :: "addr \<Rightarrow> objects \<Rightarrow> ptr \<times> objects" where
  "release_at this objs = (case release (objs this) of (p, a) \<Rightarrow> (p, objs(this := a)))"

definition destroy_at :: "addr \<Rightarrow> objects \<Rightarrow> call list \<Rightarrow> objects \<times> call list" where
  "destroy_at this objs log =
     (case destroy (objs this) log of (a, log') \<Rightarrow> (objs(this := a), log'))"

text \<open>
  Exclusive ownership: no array is held by two handles of the store.
\<close>

definition exclusive :: "objects \<Rightarrow> bool" where
  "exclusive objs =
     (\<forall>a b. a \<noteq> b \<longrightarrow> isValid (objs a) \<longrightarrow> mArray (objs a) \<noteq> mArray (objs b))"

text \<open>
  The life of one handle: copy construction from \<open>src\<close>, copy assignments from the pointers
  \<open>srcs\<close> in turn (one that throws leaves the handle alive), and the destructor. When the
  constructor throws there is no object and no destructor runs. The result is the log.
\<close>

fun assign_all :: "duplicator \<Rightarrow> Array \<Rightarrow> ptr list \<Rightarrow> call list \<Rightarrow> Array \<times> call list" where
  "assign_all d a [] log = (a, log)"
| "assign_all d a (src # srcs) log =
     (case copy_assign d a src log of (_, a', log') \<Rightarrow> assign_all d a' srcs log')"

definition lifetime :: "duplicator \<Rightarrow> ptr \<Rightarrow> ptr list \<Rightarrow> call list \<Rightarrow> call list" where
  "lifetime d src srcs log =
     (case Array_copy d src log of
        (Inl e, log1) \<Rightarrow> log1
      | (Inr a, log1) \<Rightarrow>
          (case assign_all d a srcs log1 of (a', log2) \<Rightarrow> snd (destroy a' log2)))"

text \<open>The arrays a log created by duplication, and the arrays it destroyed.\<close>

fun duplicated :: "call list \<Rightarrow> ptr list" where
  "duplicated [] = []"
| "duplicated (MxDuplicateArray s r # cs) =
     (if r \<noteq> nullptr then r # duplicated cs else duplicated cs)"
| "duplicated (_ # cs) = duplicated cs"

fun destroyed :: "call list \<Rightarrow> ptr list" where
  "destroyed [] = []"
| "destroyed (MxDestroyArray p # cs) =
     (if p \<noteq> nullptr then p # destroyed cs else destroyed cs)"
| "destroyed (_ # cs) = destroyed cs"

text \<open>What a handle still has to hand to \<^verbatim>\<open>mxDestroyArray\<close>: the array it holds, if any.\<close>

definition owed :: "Array \<Rightarrow> ptr list" where
  "owed a = (if mArray a \<noteq> nullptr then [mArray a] else [])"

text \<open>No handle of the store other than the one at \<open>this\<close> holds the pointer \<open>p\<close>.\<close>

definition unheld_by_others :: "objects \<Rightarrow> addr \<Rightarrow> ptr \<Rightarrow> bool" where
  "unheld_by_others objs this p = (\<forall>c. c \<noteq> this \<longrightarrow> mArray (objs c) \<noteq> p)"

text \<open>A store with two valid handles, at the addresses 1 and 2.\<close>

definition two_handles :: objects where
  "two_handles = (\<lambda>_. \<lparr>mArray = nullptr\<rparr>)(1 := \<lparr>mArray = 5\<rparr>, 2 := \<lparr>mArray = 7\<rparr>)"

section \<open>References\<close>

text \<open>
  \<^verbatim>\<open>ArrayRef\<close> and \<^verbatim>\<open>ArrayCref\<close> wrap a pointer they do not own. \<^verbatim>\<open>CharArrayCref\<close> and
  \<^verbatim>\<open>StructArrayRef\<close> derive from them through \<^verbatim>\<open>TypedArrayCref\<close> and \<^verbatim>\<open>TypedArrayRef\<close>
  and add no field. The members they inherit (\<^verbatim>\<open>ArrayRef.hpp\<close>, \<^verbatim>\<open>TypedArrayRef.hpp\<close>) are
  parameters of the functions that call them, and may throw.
\<close>

datatype ArrayRef = ArrayRef ptr

datatype ArrayCref = ArrayCref ptr

fun get_ref :: "ArrayRef \<Rightarrow> ptr" where
  "get_ref (ArrayRef p) = p"

fun get_cref :: "ArrayCref \<Rightarrow> ptr" where
  "get_cref (ArrayCref p) = p"

type_synonym CharArrayCref = ArrayCref

type_synonym StructArrayRef = ArrayRef

section \<open>ObjectArray.hpp\<close>

text \<open>
  \<^verbatim>\<open>StructArray\<close> is an \<^verbatim>\<open>Array\<close> (through \<^verbatim>\<open>TypedArray<Struct>\<close>): \<open>isValid\<close>,
  \<open>release\<close> and the move into the returned \<^verbatim>\<open>Array\<close> are those of \<^verbatim>\<open>Array\<close>. The result
  is what is returned or thrown, the source handle after the call, and the log.
\<close>

type_synonym StructArray = Array

definition makeObjectArray ::
  "(call list \<Rightarrow> ptr \<Rightarrow> string \<Rightarrow> int) \<Rightarrow> StructArray \<Rightarrow> cstr \<Rightarrow> call list
     \<Rightarrow> (Exception + Array) \<times> StructArray \<times> call list" where
  "makeObjectArray mxSetClassName srcArray className log =
     (if \<not> isValid srcArray then (Inl (Exception ''invalid source array''), srcArray, log)
      else case className of
        None \<Rightarrow> (Inl (Exception ''invalid class name''), srcArray, log)
      | Some name \<Rightarrow>
          (case release srcArray of
             (p, src1) \<Rightarrow>
               (let rc = mxSetClassName log p name;
                    log1 = log @ [MxSetClassName p name rc]
                in if rc \<noteq> 0
                   then (Inl (Exception ''failed to set class name''), src1, log1)
                   else (case Array_move src1 of
                           (result, src2) \<Rightarrow> (Inr result, src2, log1)))))"

section \<open>CharArrayRef.hpp\<close>

text \<open>
  \<^verbatim>\<open>(getRank() <= 2) && (getDimM() == 1)\<close>: \<^verbatim>\<open>getDimM\<close> is called only when the rank is
  at most 2.
\<close>

definition CharArrayCref_isSingleString ::
  "(ArrayCref \<Rightarrow> Exception + nat) \<Rightarrow> (ArrayCref \<Rightarrow> Exception + nat) \<Rightarrow> CharArrayCref
     \<Rightarrow> Exception + bool" where
  "CharArrayCref_isSingleString cref_getRank cref_getDimM array =
     and_then (cref_getRank array)
       (\<lambda>rank. if rank \<le> 2 then and_then (cref_getDimM array) (\<lambda>m. Inr (m = 1))
               else Inr False)"

text \<open>
  \<^verbatim>\<open>std::char_traits<char16_t>::length\<close>: the number of characters before the first zero.
  \<^verbatim>\<open>getData()\<close> gives the characters stored from the data pointer on.
\<close>

definition char_traits_length :: "16 word list \<Rightarrow> nat" where
  "char_traits_length s = length (takeWhile (\<lambda>c. c \<noteq> 0) s)"

text \<open>
  \<^verbatim>\<open>mxGetString(array, buf, buflen)\<close> gives its return code and the characters it wrote; the
  string returned is the buffer of \<open>size\<close> characters, zero where nothing was written.
\<close>

definition toAscii ::
  "(ArrayCref \<Rightarrow> Exception + nat) \<Rightarrow> (ArrayCref \<Rightarrow> Exception + nat)
     \<Rightarrow> (ArrayCref \<Rightarrow> Exception + 16 word list) \<Rightarrow> (ptr \<Rightarrow> nat \<Rightarrow> int \<times> string)
     \<Rightarrow> CharArrayCref \<Rightarrow> Exception + string" where
  "toAscii cref_getRank cref_getDimM cref_getData mxGetString array =
     and_then (CharArrayCref_isSingleString cref_getRank cref_getDimM array)
       (\<lambda>single.
          if single
          then Inl (ExceptionId ''matlabw:mx:toAscii''
                      (''Input must be a single string.'' @ [CHR 0x0A]))
          else and_then (cref_getData array)
            (\<lambda>chars.
               let size = char_traits_length chars
               in case mxGetString (get_cref array) (size + 1) of
                    (rc, written) \<Rightarrow>
                      if rc \<noteq> 0
                      then Inl (ExceptionId ''matlabw:mx:toAscii''
                             (''Failed to convert char16_t array to string.'' @ [CHR 0x0A]))
                      else Inr (take size (written @ replicate size (CHR 0x00)))))"

section \<open>variable.hpp\<close>

text \<open>
  \<^verbatim>\<open>Workspace\<close> is a scoped enumeration over \<^verbatim>\<open>int\<close>: a value is the integer it stands
  for, \<open>base\<close>, \<open>global\<close> and \<open>caller\<close> being 0, 1 and 2. Any other integer is a value
  \<^verbatim>\<open>static_cast<Workspace>(n)\<close> as well, and reaches the \<^verbatim>\<open>default:\<close> branch of the switch.
\<close>

type_synonym Workspace = int

definition base :: Workspace where
  "base = 0"

definition global :: Workspace where
  "global = 1"

definition caller :: Workspace where
  "caller = 2"

definition getWorkspaceName :: "Workspace \<Rightarrow> Exception + string" where
  "getWorkspaceName workspace =
     (if workspace = base then Inr ''base''
      else if workspace = global then Inr ''global''
      else if workspace = caller then Inr ''caller''
      else Inl (Exception ''invalid workspace''))"

definition putVariable ::
  "(call list \<Rightarrow> string \<Rightarrow> string \<Rightarrow> ptr \<Rightarrow> int) \<Rightarrow> Workspace \<Rightarrow> cstr \<Rightarrow> ArrayCref
     \<Rightarrow> call list \<Rightarrow> (Exception + unit) \<times> call list" where
  "putVariable mexPutVariable workspace name val log =
     (case name of
        None \<Rightarrow> (Inl (Exception ''invalid variable name''), log)
      | Some n \<Rightarrow>
          (case getWorkspaceName workspace of
             Inl e \<Rightarrow> (Inl e, log)
           | Inr workspaceName \<Rightarrow>
               (let rc = mexPutVariable log workspaceName n (get_cref val);
                    log' = log @ [MexPutVariable workspaceName n (get_cref val) rc]
                in if rc \<noteq> 0
                   then (Inl (Exception ''failed to put variable''), log')
                   else (Inr (), log'))))"

definition getVariableCref ::
  "(call list \<Rightarrow> string \<Rightarrow> string \<Rightarrow> ptr) \<Rightarrow> Workspace \<Rightarrow> cstr \<Rightarrow> call list
     \<Rightarrow> (Exception + ArrayCref option) \<times> call list" where
  "getVariableCref mexGetVariablePtr workspace name log =
     (case name of
        None \<Rightarrow> (Inl (Exception ''invalid variable name''), log)
      | Some n \<Rightarrow>
          (case getWorkspaceName workspace of
             Inl e \<Rightarrow> (Inl e, log)
           | Inr workspaceName \<Rightarrow>
               (let array = mexGetVariablePtr log workspaceName n;
                    log' = log @ [MexGetVariablePtr workspaceName n array]
                in if array = nullptr then (Inr None, log')
                   else (Inr (Some (ArrayCref array)), log'))))"

text \<open>
  \<^verbatim>\<open>return mx::Array{std::move(array)}\<close> into \<^verbatim>\<open>std::optional<mx::Array>\<close>: the temporary
  \<^verbatim>\<open>Array\<close> adopts the pointer, the \<^verbatim>\<open>Array\<close> held by the optional is move constructed
  from it, and the destructor of the emptied temporary runs before the function returns.
\<close>

definition getVariable ::
  "(call list \<Rightarrow> string \<Rightarrow> string \<Rightarrow> ptr) \<Rightarrow> Workspace \<Rightarrow> cstr \<Rightarrow> call list
     \<Rightarrow> (Exception + Array option) \<times> call list" where
  "getVariable mexGetVariable workspace name log =
     (case name of
        None \<Rightarrow> (Inl (Exception ''invalid variable name''), log)
      | Some n \<Rightarrow>
          (case getWorkspaceName workspace of
             Inl e \<Rightarrow> (Inl e, log)
           | Inr workspaceName \<Rightarrow>
               (let array = mexGetVariable log workspaceName n;
                    log' = log @ [MexGetVariable workspaceName n array]
                in if array = nullptr then (Inr None, log')
                   else (case Array_move (Array_from_ptr array) of
                           (held, temporary) \<Rightarrow>
                             (case destroy temporary log' of
                                (_, log'') \<Rightarrow> (Inr (Some held), log''))))))"

section \<open>StructArrayRef.hpp\<close>

text \<open>
  \<^verbatim>\<open>FieldIndex\<close> is an enumeration over an integer type (\<^verbatim>\<open>common.hpp\<close>); a field index
  is the integer it stands for, and \<^verbatim>\<open>FieldIndex::invalid\<close> is a parameter \<open>invalid\<close>.
  The casts: to \<^verbatim>\<open>std::size_t\<close> modulo \<open>2^64\<close>, to \<^verbatim>\<open>int\<close> into the signed 32-bit range.
\<close>

type_synonym FieldIndex = int

definition to_size_t :: "int \<Rightarrow> nat" where
  "to_size_t v = nat (v mod 2 ^ 64)"

definition to_int :: "int \<Rightarrow> int" where
  "to_int v = (v + 2 ^ 31) mod 2 ^ 32 - 2 ^ 31"

definition getFieldCount :: "(ptr \<Rightarrow> int) \<Rightarrow> StructArrayRef \<Rightarrow> nat" where
  "getFieldCount mxGetNumberOfFields a = to_size_t (mxGetNumberOfFields (get_ref a))"

definition getFieldIndex ::
  "FieldIndex \<Rightarrow> (ptr \<Rightarrow> cstr \<Rightarrow> int) \<Rightarrow> StructArrayRef \<Rightarrow> cstr \<Rightarrow> FieldIndex" where
  "getFieldIndex invalid mxGetFieldNumber a fieldName =
     (let fieldIdx = mxGetFieldNumber (get_ref a) fieldName
      in if fieldIdx = - 1 then invalid else fieldIdx)"

definition getField ::
  "FieldIndex \<Rightarrow> (ptr \<Rightarrow> int) \<Rightarrow> (ptr \<Rightarrow> nat \<Rightarrow> int \<Rightarrow> ptr) \<Rightarrow> StructArrayRef \<Rightarrow> nat
     \<Rightarrow> FieldIndex \<Rightarrow> Exception + ArrayRef option" where
  "getField invalid mxGetNumberOfFields mxGetFieldByNumber a i fieldIndex =
     (if fieldIndex = invalid then Inr None
      else if to_size_t fieldIndex \<ge> getFieldCount mxGetNumberOfFields a
        then Inl (Exception ''field index out of range'')
      else (let field = mxGetFieldByNumber (get_ref a) i (to_int fieldIndex)
            in if field = nullptr then Inr None else Inr (Some (ArrayRef field))))"

text \<open>\<^verbatim>\<open>getField(i, fieldName)\<close>: \<^verbatim>\<open>getField(i, getFieldIndex(fieldName))\<close>.\<close>

definition getField_by_name ::
  "FieldIndex \<Rightarrow> (ptr \<Rightarrow> cstr \<Rightarrow> int) \<Rightarrow> (ptr \<Rightarrow> int) \<Rightarrow> (ptr \<Rightarrow> nat \<Rightarrow> int \<Rightarrow> ptr)
     \<Rightarrow> StructArrayRef \<Rightarrow> nat \<Rightarrow> cstr \<Rightarrow> Exception + ArrayRef option" where
  "getField_by_name invalid mxGetFieldNumber mxGetNumberOfFields mxGetFieldByNumber a i fieldName =
     getField invalid mxGetNumberOfFields mxGetFieldByNumber a i
       (getFieldIndex invalid mxGetFieldNumber a fieldName)"

section \<open>CharArray.hpp\<close>

text \<open>
  \<^verbatim>\<open>CharArray\<close> is an \<^verbatim>\<open>Array\<close> (through \<^verbatim>\<open>TypedArray<char16_t>\<close>); \<open>getRank\<close>,
  \<open>getDimM\<close> and \<open>getDimN\<close> are those of \<^verbatim>\<open>Array\<close>. The typed \<^verbatim>\<open>getData()\<close> of
  \<^verbatim>\<open>TypedArray.hpp\<close> is a parameter: the characters stored from the data pointer on.
\<close>

type_synonym CharArray = Array

definition CharArray_isSingleString ::
  "(ptr \<Rightarrow> nat) \<Rightarrow> (ptr \<Rightarrow> nat) \<Rightarrow> CharArray \<Rightarrow> Exception + bool" where
  "CharArray_isSingleString mxGetNumberOfDimensions mxGetM a =
     and_then (getRank mxGetNumberOfDimensions a)
       (\<lambda>rank. if rank \<le> 2 then and_then (getDimM mxGetM a) (\<lambda>m. Inr (m = 1))
               else Inr False)"

text \<open>\<^verbatim>\<open>operator std::u16string_view\<close>: \<^verbatim>\<open>getDimN()\<close> characters from \<^verbatim>\<open>getData()\<close>.\<close>

definition CharArray_u16string_view ::
  "(ptr \<Rightarrow> nat) \<Rightarrow> (ptr \<Rightarrow> nat) \<Rightarrow> (ptr \<Rightarrow> nat) \<Rightarrow> (CharArray \<Rightarrow> Exception + 16 word list)
     \<Rightarrow> CharArray \<Rightarrow> Exception + 16 word list" where
  "CharArray_u16string_view mxGetNumberOfDimensions mxGetM mxGetN typed_getData a =
     and_then (CharArray_isSingleString mxGetNumberOfDimensions mxGetM a)
       (\<lambda>single.
          if \<not> single
          then Inl (ExceptionId ''matlabw:mx:CharArray:operatorU16StringView''
                      ''array must be a single string'')
          else and_then (typed_getData a)
            (\<lambda>chars. and_then (getDimN mxGetN a) (\<lambda>n. Inr (take n chars))))"

text \<open>
  \<^verbatim>\<open>makeCharArray(View<std::size_t> dims)\<close>: the view is the list of the dimensions it
  spans, \<^verbatim>\<open>dims.size()\<close> its length.
\<close>

definition makeCharArray ::
  "(call list \<Rightarrow> nat \<Rightarrow> nat list \<Rightarrow> ptr) \<Rightarrow> nat list \<Rightarrow> call list
     \<Rightarrow> (Exception + CharArray) \<times> call list" where
  "makeCharArray mxCreateCharArray dims log =
     (let array = mxCreateCharArray log (length dims) dims;
          log' = log @ [MxCreateCharArray (length dims) dims array]
      in if array = nullptr
         then (Inl (Exception ''failed to create char array''), log')
         else (Inr (Array_from_ptr array), log'))"

text \<open>
  The memory gives the characters of each native array, those of a new array as the
  runtime left them. \<^verbatim>\<open>std::copy(str.begin(), str.end(), array.begin())\<close> overwrites the
  first characters of the new array with the string.
\<close>

type_synonym memory = "ptr \<Rightarrow> 16 word list"

definition copy_into :: "16 word list \<Rightarrow> 16 word list \<Rightarrow> 16 word list" where
  "copy_into str buffer = str @ drop (length str) buffer"

definition makeCharArray_u16 ::
  "(call list \<Rightarrow> nat \<Rightarrow> nat list \<Rightarrow> ptr) \<Rightarrow> 16 word list \<Rightarrow> memory \<Rightarrow> call list
     \<Rightarrow> (Exception + CharArray) \<times> memory \<times> call list" where
  "makeCharArray_u16 mxCreateCharArray str mem log =
     (case makeCharArray mxCreateCharArray [length str + 1] log of
        (Inl e, log') \<Rightarrow> (Inl e, mem, log')
      | (Inr array, log') \<Rightarrow>
          (Inr array, mem(mArray array := copy_into str (mem (mArray array))), log'))"

section \<open>Names used in the statements\<close>

text \<open>
  The workspaces the specification names, and the name it gives each. Any other value of
  the enumeration's integer type does not satisfy \<open>is_workspace\<close>.
\<close>

definition is_workspace :: "Workspace \<Rightarrow> bool" where
  "is_workspace w = (w = base \<or> w = global \<or> w = caller)"

definition workspace_name :: "Workspace \<Rightarrow> string" where
  "workspace_name w =
     (if w = base then ''base'' else if w = global then ''global'' else ''caller'')"

section \<open>Introspection forwards to the native function\<close>

lemma checked_forward:
  "and_then (checkValid ident a) (\<lambda>_. Inr v) =
     (if isValid a then Inr v else Inl (ExceptionId ident ''accessing invalid array''))"
  by (simp add: and_then_def checkValid_def)

lemma getDims_forward:
  "getDims mxGetDimensions mxGetNumberOfDimensions a =
     (if isValid a
      then Inr \<lparr>view_data = mxGetDimensions (mArray a),
                view_size = mxGetNumberOfDimensions (mArray a)\<rparr>
      else Inl (ExceptionId ''matlabw:mx:Array:getDims'' ''accessing invalid array''))"
  by (simp add: getDims_def getRank_def and_then_def checkValid_def)

lemma isClass_forward:
  "isClass mxIsClass a name =
     (if \<not> isValid a
      then Inl (ExceptionId ''matlabw:mx:Array:isClass'' ''accessing invalid array'')
      else case name of
             None \<Rightarrow> Inl (Exception ''invalid class name'')
           | Some n \<Rightarrow> Inr (mxIsClass (mArray a) n))"
  by (simp add: isClass_def and_then_def checkValid_def)

text \<open>
  C1 (as amended). Every introspection operation of \<^verbatim>\<open>Array\<close> throws
  \<open>ExceptionId id ''accessing invalid array''\<close> when the handle holds the null pointer,
  and on a valid handle returns the value of its native function at the held pointer.
  Two operations are not a bare forwarding of one native function: \<open>getDims\<close> pairs the
  pointer of \<^verbatim>\<open>mxGetDimensions\<close> with the rank of \<^verbatim>\<open>mxGetNumberOfDimensions\<close>, and
  \<open>isClass\<close> on a valid handle throws \<open>Exception ''invalid class name''\<close> for a null
  name and otherwise returns \<^verbatim>\<open>mxIsClass\<close> of the pointer and the name.
\<close>

theorem Array_introspection_forwards:
  "getRank mxGetNumberOfDimensions a =
     (if isValid a then Inr (mxGetNumberOfDimensions (mArray a))
      else Inl (ExceptionId ''matlabw:mx:Array:getRank'' ''accessing invalid array''))
   \<and> getDimM mxGetM a =
     (if isValid a then Inr (mxGetM (mArray a))
      else Inl (ExceptionId ''matlabw:mx:Array:getDimM'' ''accessing invalid array''))
   \<and> getDimN mxGetN a =
     (if isValid a then Inr (mxGetN (mArray a))
      else Inl (ExceptionId ''matlabw:mx:Array:getDimN'' ''accessing invalid array''))
   \<and> getSize mxGetNumberOfElements a =
     (if isValid a then Inr (mxGetNumberOfElements (mArray a))
      else Inl (ExceptionId ''matlabw:mx:Array:getSize'' ''accessing invalid array''))
   \<and> getSizeOfElement mxGetElementSize a =
     (if isValid a then Inr (mxGetElementSize (mArray a))
      else Inl (ExceptionId ''matlabw:mx:Array:getSizeOfElement'' ''accessing invalid array''))
   \<and> isGpuArray mxIsGPUArray a =
     (if isValid a then Inr (mxIsGPUArray (mArray a))
      else Inl (ExceptionId ''matlabw:mx:Array:isGpuArray'' ''accessing invalid array''))
   \<and> isNumeric mxIsNumeric a =
     (if isValid a then Inr (mxIsNumeric (mArray a))
      else Inl (ExceptionId ''matlabw:mx:Array:isNumeric'' ''accessing invalid array''))
   \<and> isComplex mxIsComplex a =
     (if isValid a then Inr (mxIsComplex (mArray a))
      else Inl (ExceptionId ''matlabw:mx:Array:isComplex'' ''accessing invalid array''))
   \<and> isEmpty mxIsEmpty a =
     (if isValid a then Inr (mxIsEmpty (mArray a))
      else Inl (ExceptionId ''matlabw:mx:Array:isEmpty'' ''accessing invalid array''))
   \<and> isScalar mxIsScalar a =
     (if isValid a then Inr (mxIsScalar (mArray a))
      else Inl (ExceptionId ''matlabw:mx:Array:isScalar'' ''accessing invalid array''))
   \<and> isDouble mxIsDouble a =
     (if isValid a then Inr (mxIsDouble (mArray a))
      else Inl (ExceptionId ''matlabw:mx:Array:isDouble'' ''accessing invalid array''))
   \<and> isSingle mxIsSingle a =
     (if isValid a then Inr (mxIsSingle (mArray a))
      else Inl (ExceptionId ''matlabw:mx:Array:isSingle'' ''accessing invalid array''))
   \<and> isInt8 mxIsInt8 a =
     (if isValid a then Inr (mxIsInt8 (mArray a))
      else Inl (ExceptionId ''matlabw:mx:Array:isInt8'' ''accessing invalid array''))
   \<and> isUint8 mxIsUint8 a =
     (if isValid a then Inr (mxIsUint8 (mArray a))
      else Inl (ExceptionId ''matlabw:mx:Array:isUint8'' ''accessing invalid array''))
   \<and> isInt16 mxIsInt16 a =
     (if isValid a then Inr (mxIsInt16 (mArray a))
      else Inl (ExceptionId ''matlabw:mx:Array:isInt16'' ''accessing invalid array''))
   \<and> isUint16 mxIsUint16 a =
     (if isValid a then Inr (mxIsUint16 (mArray a))
      else Inl (ExceptionId ''matlabw:mx:Array:isUint16'' ''accessing invalid array''))
   \<and> isInt32 mxIsInt32 a =
     (if isValid a then Inr (mxIsInt32 (mArray a))
      else Inl (ExceptionId ''matlabw:mx:Array:isInt32'' ''accessing invalid array''))
   \<and> isUint32 mxIsUint32 a =
     (if isValid a then Inr (mxIsUint32 (mArray a))
      else Inl (ExceptionId ''matlabw:mx:Array:isUint32'' ''accessing invalid array''))
   \<and> isInt64 mxIsInt64 a =
     (if isValid a then Inr (mxIsInt64 (mArray a))
      else Inl (ExceptionId ''matlabw:mx:Array:isInt64'' ''accessing invalid array''))
   \<and> isUint64 mxIsUint64 a =
     (if isValid a then Inr (mxIsUint64 (mArray a))
      else Inl (ExceptionId ''matlabw:mx:Array:isUint64'' ''accessing invalid array''))
   \<and> isSparse mxIsSparse a =
     (if isValid a then Inr (mxIsSparse (mArray a))
      else Inl (ExceptionId ''matlabw:mx:Array:isSparse'' ''accessing invalid array''))
   \<and> isChar mxIsChar a =
     (if isValid a then Inr (mxIsChar (mArray a))
      else Inl (ExceptionId ''matlabw:mx:Array:isChar'' ''accessing invalid array''))
   \<and> isLogical mxIsLogical a =
     (if isValid a then Inr (mxIsLogical (mArray a))
      else Inl (ExceptionId ''matlabw:mx:Array:isLogical'' ''accessing invalid array''))
   \<and> isLogicalScalar mxIsLogicalScalar a =
     (if isValid a then Inr (mxIsLogicalScalar (mArray a))
      else Inl (ExceptionId ''matlabw:mx:Array:isLogicalScalar'' ''accessing invalid array''))
   \<and> isLogicalScalarTrue mxIsLogicalScalarTrue a =
     (if isValid a then Inr (mxIsLogicalScalarTrue (mArray a))
      else Inl (ExceptionId ''matlabw:mx:Array:isLogicalScalarTrue'' ''accessing invalid array''))
   \<and> isStruct mxIsStruct a =
     (if isValid a then Inr (mxIsStruct (mArray a))
      else Inl (ExceptionId ''matlabw:mx:Array:isStruct'' ''accessing invalid array''))
   \<and> isCell mxIsCell a =
     (if isValid a then Inr (mxIsCell (mArray a))
      else Inl (ExceptionId ''matlabw:mx:Array:isCell'' ''accessing invalid array''))
   \<and> getClassName mxGetClassName a =
     (if isValid a then Inr (mxGetClassName (mArray a))
      else Inl (ExceptionId ''matlabw:mx:Array:getClassName'' ''accessing invalid array''))
   \<and> getData mxGetData a =
     (if isValid a then Inr (mxGetData (mArray a))
      else Inl (ExceptionId ''matlabw:mx:Array:getData'' ''accessing invalid array''))
   \<and> getClassId mxGetClassID a =
     (if isValid a then Inr (ClassId (mxGetClassID (mArray a)))
      else Inl (ExceptionId ''matlabw:mx:Array:getClassId'' ''accessing invalid array''))
   \<and> getDims mxGetDimensions mxGetNumberOfDimensions a =
     (if isValid a
      then Inr \<lparr>view_data = mxGetDimensions (mArray a),
                view_size = mxGetNumberOfDimensions (mArray a)\<rparr>
      else Inl (ExceptionId ''matlabw:mx:Array:getDims'' ''accessing invalid array''))
   \<and> isClass mxIsClass a name =
     (if \<not> isValid a
      then Inl (ExceptionId ''matlabw:mx:Array:isClass'' ''accessing invalid array'')
      else case name of
             None \<Rightarrow> Inl (Exception ''invalid class name'')
           | Some n \<Rightarrow> Inr (mxIsClass (mArray a) n))"
  unfolding getRank_def getDimM_def getDimN_def getSize_def getSizeOfElement_def isGpuArray_def isNumeric_def isComplex_def isEmpty_def isScalar_def isDouble_def isSingle_def isInt8_def isUint8_def isInt16_def isUint16_def isInt32_def isUint32_def isInt64_def isUint64_def isSparse_def isChar_def isLogical_def isLogicalScalar_def isLogicalScalarTrue_def isStruct_def isCell_def getClassName_def getData_def getClassId_def checked_forward
  by (simp add: getDims_forward isClass_forward)

text \<open>
  C1 as stated fails for \<open>isClass\<close>: on a valid handle and a null class name it throws
  instead of returning the value of the native predicate.
\<close>

theorem isClass_null_name_throws_on_valid_array:
  "isValid \<lparr>mArray = 1\<rparr> \<and>
   isClass (\<lambda>p n. True) \<lparr>mArray = 1\<rparr> None = Inl (Exception ''invalid class name'')"
  by (simp add: isClass_def and_then_def checkValid_def isValid_def)

section \<open>Ownership over the life of a handle\<close>

lemma duplicated_append: "duplicated (xs @ ys) = duplicated xs @ duplicated ys"
  by (induction xs rule: duplicated.induct) simp_all

lemma destroyed_append: "destroyed (xs @ ys) = destroyed xs @ destroyed ys"
  by (induction xs rule: destroyed.induct) simp_all

lemma release_eq: "release a = (mArray a, a\<lparr>mArray := nullptr\<rparr>)"
  by (simp add: release_def)

lemma destroy_eq: "destroy a log = (a\<lparr>mArray := nullptr\<rparr>, log @ [MxDestroyArray (mArray a)])"
  by (simp add: destroy_def release_def)

lemma duplicateArray_eq:
  "duplicateArray d src log =
     (if src = nullptr then (Inr nullptr, log)
      else (if d log src = nullptr then Inl (Exception ''failed to duplicate array'')
            else Inr (d log src),
            log @ [MxDuplicateArray src (d log src)]))"
  by (simp add: duplicateArray_def Let_def)

lemma Array_copy_eq:
  "Array_copy d src log =
     (if src = nullptr then (Inr \<lparr>mArray = nullptr\<rparr>, log)
      else (if d log src = nullptr then Inl (Exception ''failed to duplicate array'')
            else Inr \<lparr>mArray = d log src\<rparr>,
            log @ [MxDuplicateArray src (d log src)]))"
  by (simp add: Array_copy_def duplicateArray_eq Array_from_ptr_def)

lemma copy_assign_eq:
  "copy_assign d this src log =
     (if mArray this = src then (Inr (), this, log)
      else if src = nullptr
        then (Inr (), this\<lparr>mArray := nullptr\<rparr>, log @ [MxDestroyArray (mArray this)])
      else (if d (log @ [MxDestroyArray (mArray this)]) src = nullptr
            then Inl (Exception ''failed to duplicate array'') else Inr (),
            this\<lparr>mArray := d (log @ [MxDestroyArray (mArray this)]) src\<rparr>,
            log @ [MxDestroyArray (mArray this),
                   MxDuplicateArray src (d (log @ [MxDestroyArray (mArray this)]) src)]))"
  by (simp add: copy_assign_def destroy_eq duplicateArray_eq)

text \<open>
  One copy assignment keeps the balance: what it destroyed, and what the handle holds
  after, is what the handle held before and what it duplicated.
\<close>

lemma copy_assign_balance:
  assumes "copy_assign d a src log = (r, a', log')"
  shows "\<exists>calls. log' = log @ calls \<and> destroyed calls @ owed a' = owed a @ duplicated calls"
  using assms by (auto simp: copy_assign_eq owed_def split: if_splits)

lemma assign_all_balance:
  "assign_all d a srcs log = (a', log') \<Longrightarrow>
     \<exists>calls. log' = log @ calls \<and> destroyed calls @ owed a' = owed a @ duplicated calls"
proof (induction srcs arbitrary: a log)
  case Nil
  then show ?case by simp
next
  case (Cons src srcs)
  obtain r a1 log1 where step: "copy_assign d a src log = (r, a1, log1)"
    by (cases "copy_assign d a src log") auto
  with Cons.prems have rest: "assign_all d a1 srcs log1 = (a', log')" by simp
  from copy_assign_balance[OF step] obtain c1 where
    c1: "log1 = log @ c1" "destroyed c1 @ owed a1 = owed a @ duplicated c1" by blast
  from Cons.IH[OF rest] obtain c2 where
    c2: "log' = log1 @ c2" "destroyed c2 @ owed a' = owed a1 @ duplicated c2" by blast
  have "destroyed (c1 @ c2) @ owed a' = owed a @ duplicated (c1 @ c2)"
    using c1(2) c2(2) by (simp add: destroyed_append duplicated_append)
  with c1(1) c2(1) show ?case by auto
qed

lemma lifetime_balance:
  "\<exists>calls. lifetime d src srcs log = log @ calls \<and> destroyed calls = duplicated calls"
proof (cases "Array_copy d src log")
  case (Pair r log1)
  show ?thesis
  proof (cases r)
    case (Inl e)
    with Pair show ?thesis
      by (auto simp: lifetime_def Array_copy_eq split: if_splits)
  next
    case (Inr a)
    let ?c0 = "if src = nullptr then [] else [MxDuplicateArray src (mArray a)]"
    from Pair Inr have ctor: "log1 = log @ ?c0" "owed a = duplicated ?c0"
      by (auto simp: Array_copy_eq owed_def split: if_splits)
    obtain a' log2 where run: "assign_all d a srcs log1 = (a', log2)"
      by (cases "assign_all d a srcs log1") auto
    from assign_all_balance[OF run] obtain c where
      c: "log2 = log1 @ c" "destroyed c @ owed a' = owed a @ duplicated c" by blast
    have life: "lifetime d src srcs log = log2 @ [MxDestroyArray (mArray a')]"
      using Pair Inr run by (simp add: lifetime_def destroy_eq)
    have last: "destroyed [MxDestroyArray (mArray a')] = owed a'"
      by (simp add: owed_def)
    have d0: "destroyed ?c0 = []" by simp
    have "destroyed (?c0 @ c @ [MxDestroyArray (mArray a')]) =
          duplicated (?c0 @ c @ [MxDestroyArray (mArray a')])"
      unfolding destroyed_append duplicated_append last d0 using c(2) ctor(2) by simp
    moreover have "lifetime d src srcs log = log @ (?c0 @ c @ [MxDestroyArray (mArray a')])"
      using life c(1) ctor(1) by simp
    ultimately show ?thesis by blast
  qed
qed

text \<open>
  C2 (as amended). Copy construction calls \<^verbatim>\<open>mxDuplicateArray\<close> on the source pointer when
  it is not null, and throws when the native function returns null. Copy assignment does
  nothing when the source pointer is the pointer already held; otherwise it first destroys
  the held pointer and then duplicates the source pointer when that is not null, throwing
  when the native function returns null. The destructor always calls \<^verbatim>\<open>mxDestroyArray\<close> on
  the held pointer, the null pointer included. Over a life made of a copy construction, any
  copy assignments and the destructor, the non-null pointers handed to \<^verbatim>\<open>mxDestroyArray\<close>
  are the pointers the successful \<^verbatim>\<open>mxDuplicateArray\<close> calls returned, in the same order:
  every array the handle came to own by duplication is destroyed once.
\<close>

theorem copy_duplicates_and_destructor_destroys:
  "Array_copy d src log =
     (if src = nullptr then (Inr \<lparr>mArray = nullptr\<rparr>, log)
      else (if d log src = nullptr then Inl (Exception ''failed to duplicate array'')
            else Inr \<lparr>mArray = d log src\<rparr>,
            log @ [MxDuplicateArray src (d log src)]))
   \<and> copy_assign d this src log =
     (if mArray this = src then (Inr (), this, log)
      else if src = nullptr
        then (Inr (), this\<lparr>mArray := nullptr\<rparr>, log @ [MxDestroyArray (mArray this)])
      else (if d (log @ [MxDestroyArray (mArray this)]) src = nullptr
            then Inl (Exception ''failed to duplicate array'') else Inr (),
            this\<lparr>mArray := d (log @ [MxDestroyArray (mArray this)]) src\<rparr>,
            log @ [MxDestroyArray (mArray this),
                   MxDuplicateArray src (d (log @ [MxDestroyArray (mArray this)]) src)]))
   \<and> destroy a log = (a\<lparr>mArray := nullptr\<rparr>, log @ [MxDestroyArray (mArray a)])
   \<and> (\<exists>calls. lifetime d src srcs log = log @ calls \<and> destroyed calls = duplicated calls)"
proof (intro conjI)
  show "\<exists>calls. lifetime d src srcs log = log @ calls \<and> destroyed calls = duplicated calls"
    by (rule lifetime_balance)
qed (rule Array_copy_eq copy_assign_eq destroy_eq)+

text \<open>
  C2 as stated fails twice. A copy assignment from a reference to the array the handle
  already holds makes no native call at all, although the source pointer is not null. And
  the native calls do not pair: a handle copied from a null handle makes no duplicate call,
  and its destructor still calls \<^verbatim>\<open>mxDestroyArray\<close>, on the null pointer.
\<close>

theorem copy_assign_same_pointer_makes_no_call:
  "copy_assign (\<lambda>log p. 9) \<lparr>mArray = 5\<rparr> 5 [] = (Inr (), \<lparr>mArray = 5\<rparr>, [])
   \<and> lifetime (\<lambda>log p. 9) nullptr [] [] = [MxDestroyArray nullptr]"
  by (simp add: copy_assign_def lifetime_def Array_copy_def duplicateArray_def
      Array_from_ptr_def destroy_def release_def)

text \<open>
  C8 (as amended). When a copy assignment throws, the duplication of a non-null source
  pointer, different from the held one, has returned null; the target has already
  destroyed the array it held and is left holding the null pointer.
\<close>

theorem copy_assign_throw_leaves_null:
  assumes "fst (copy_assign d this src log) = Inl e"
  shows "copy_assign d this src log =
           (Inl (Exception ''failed to duplicate array''),
            this\<lparr>mArray := nullptr\<rparr>,
            log @ [MxDestroyArray (mArray this), MxDuplicateArray src nullptr])
         \<and> src \<noteq> nullptr \<and> mArray this \<noteq> src"
  using assms by (simp add: copy_assign_eq split: if_splits)

text \<open>
  C8 at a handle holding the array 5, assigned from the array 7, when the runtime fails to
  duplicate.
\<close>

theorem copy_assign_throw_leaves_null_witness:
  "copy_assign (\<lambda>log p. nullptr) \<lparr>mArray = 5\<rparr> 7 [] =
     (Inl (Exception ''failed to duplicate array''),
      \<lparr>mArray = nullptr\<rparr>,
      [MxDestroyArray 5, MxDuplicateArray 7 nullptr])"
proof -
  have thrown: "fst (copy_assign (\<lambda>log p. nullptr) \<lparr>mArray = 5\<rparr> 7 []) =
                  Inl (Exception ''failed to duplicate array'')"
    by (simp add: copy_assign_def destroy_def release_def duplicateArray_def)
  from copy_assign_throw_leaves_null[OF thrown] show ?thesis by simp
qed

text \<open>
  C8 as stated fails: after a copy assignment that throws, the target no longer holds the
  array it held before, and that array has been destroyed.
\<close>

theorem copy_assign_throw_changes_target:
  "fst (copy_assign (\<lambda>log p. nullptr) \<lparr>mArray = 5\<rparr> 7 []) =
     Inl (Exception ''failed to duplicate array'')
   \<and> fst (snd (copy_assign (\<lambda>log p. nullptr) \<lparr>mArray = 5\<rparr> 7 [])) \<noteq> \<lparr>mArray = 5\<rparr>
   \<and> snd (snd (copy_assign (\<lambda>log p. nullptr) \<lparr>mArray = 5\<rparr> 7 [])) =
       [MxDestroyArray 5, MxDuplicateArray 7 nullptr]"
  by (simp add: copy_assign_def destroy_def release_def duplicateArray_def)

section \<open>Move, release and exclusive ownership\<close>

lemma Array_move_eq:
  "Array_move other = (\<lparr>mArray = mArray other\<rparr>, other\<lparr>mArray := nullptr\<rparr>)"
  by (simp add: Array_move_def release_def)

lemma move_assign_eq:
  "move_assign this other objs log =
     (if this = other then (objs, log)
      else (objs(other := (objs other)\<lparr>mArray := nullptr\<rparr>,
                 this := (objs this)\<lparr>mArray := mArray (objs other)\<rparr>),
            log @ [MxDestroyArray (mArray (objs this))]))"
  by (auto simp: move_assign_def destroy_eq release_eq Let_def fun_upd_twist)

lemma exclusive_construct_move:
  "exclusive objs \<Longrightarrow> exclusive (construct_move this other objs)"
  unfolding exclusive_def construct_move_def Array_move_eq isValid_def
  by (auto split: if_splits)

lemma exclusive_move_assign:
  "exclusive objs \<Longrightarrow> exclusive (fst (move_assign this other objs log))"
  unfolding exclusive_def move_assign_eq isValid_def
  by (auto split: if_splits)

lemma exclusive_release_at:
  "exclusive objs \<Longrightarrow> exclusive (snd (release_at this objs))"
  unfolding exclusive_def release_at_def release_eq isValid_def
  by (auto split: if_splits)

lemma exclusive_destroy_at:
  "exclusive objs \<Longrightarrow> exclusive (fst (destroy_at this objs log))"
  unfolding exclusive_def destroy_at_def destroy_eq isValid_def
  by (auto split: if_splits)

lemma exclusive_adopt:
  "exclusive objs \<Longrightarrow> p = nullptr \<or> unheld_by_others objs this p \<Longrightarrow>
     exclusive (objs(this := Array_from_ptr p))"
  unfolding exclusive_def unheld_by_others_def Array_from_ptr_def isValid_def
  by (auto split: if_splits)

lemma exclusive_default:
  "exclusive objs \<Longrightarrow> exclusive (objs(this := Array_default))"
  unfolding exclusive_def Array_default_def isValid_def
  by (auto split: if_splits)

lemma exclusive_construct_copy:
  "exclusive objs \<Longrightarrow> d log src = nullptr \<or> unheld_by_others objs this (d log src) \<Longrightarrow>
     exclusive (fst (snd (construct_copy d this src objs log)))"
  unfolding exclusive_def unheld_by_others_def construct_copy_def Array_copy_eq isValid_def
  by (auto split: if_splits)

lemma exclusive_assign_copy:
  "exclusive objs \<Longrightarrow>
   d (log @ [MxDestroyArray (mArray (objs this))]) src = nullptr \<or>
     unheld_by_others objs this (d (log @ [MxDestroyArray (mArray (objs this))]) src) \<Longrightarrow>
     exclusive (fst (snd (assign_copy d this src objs log)))"
  unfolding exclusive_def unheld_by_others_def assign_copy_def copy_assign_eq isValid_def
  by (auto split: if_splits)

lemma exclusive_two_handles: "exclusive two_handles"
  by (simp add: exclusive_def two_handles_def isValid_def)

lemma unheld_by_others_two_handles_3_9: "unheld_by_others two_handles 3 9"
  by (simp add: unheld_by_others_def two_handles_def)

lemma unheld_by_others_two_handles_1_5: "unheld_by_others two_handles 1 5"
  by (simp add: unheld_by_others_def two_handles_def)

text \<open>
  C9 (as amended). After move construction, after move assignment from another object, and
  after \<^verbatim>\<open>release()\<close>, the source handle holds the null pointer and the pointer has gone to
  the new owner (or the caller); destroying the source afterwards hands only the null
  pointer to \<^verbatim>\<open>mxDestroyArray\<close>. Default and move construction, move assignment, release
  and destruction keep ownership exclusive; adopting a raw pointer, copy construction and copy
  assignment keep it exclusive when the adopted or duplicated pointer is null or held by
  no other handle: the runtime may hand back the pointer the target has just destroyed.
\<close>

theorem moved_from_is_null_and_ownership_exclusive:
  "(\<not> isValid (snd (Array_move b))
      \<and> mArray (fst (Array_move b)) = mArray b
      \<and> snd (destroy (snd (Array_move b)) log) = log @ [MxDestroyArray nullptr])
   \<and> (this \<noteq> other \<longrightarrow>
        \<not> isValid (fst (move_assign this other objs log) other)
      \<and> mArray (fst (move_assign this other objs log) this) = mArray (objs other)
      \<and> snd (move_assign this other objs log) = log @ [MxDestroyArray (mArray (objs this))]
      \<and> snd (destroy (fst (move_assign this other objs log) other) log') =
          log' @ [MxDestroyArray nullptr])
   \<and> (\<not> isValid (snd (release a))
      \<and> fst (release a) = mArray a
      \<and> snd (destroy (snd (release a)) log) = log @ [MxDestroyArray nullptr])
   \<and> (exclusive objs \<longrightarrow>
        exclusive (construct_move this other objs)
      \<and> exclusive (fst (move_assign this other objs log))
      \<and> exclusive (snd (release_at this objs))
      \<and> exclusive (fst (destroy_at this objs log))
      \<and> exclusive (objs(this := Array_default))
      \<and> (p = nullptr \<or> unheld_by_others objs this p \<longrightarrow>
            exclusive (objs(this := Array_from_ptr p)))
      \<and> (d log src = nullptr \<or> unheld_by_others objs this (d log src) \<longrightarrow>
            exclusive (fst (snd (construct_copy d this src objs log))))
      \<and> (d (log @ [MxDestroyArray (mArray (objs this))]) src = nullptr
            \<or> unheld_by_others objs this (d (log @ [MxDestroyArray (mArray (objs this))]) src) \<longrightarrow>
            exclusive (fst (snd (assign_copy d this src objs log)))))"
proof (intro conjI impI)
  assume "this \<noteq> other"
  then show "\<not> isValid (fst (move_assign this other objs log) other)"
    and "mArray (fst (move_assign this other objs log) this) = mArray (objs other)"
    and "snd (move_assign this other objs log) = log @ [MxDestroyArray (mArray (objs this))]"
    and "snd (destroy (fst (move_assign this other objs log) other) log') =
          log' @ [MxDestroyArray nullptr]"
    by (simp_all add: move_assign_eq isValid_def destroy_eq)
next
  assume "exclusive objs"
  then show "exclusive (construct_move this other objs)"
    and "exclusive (fst (move_assign this other objs log))"
    and "exclusive (snd (release_at this objs))"
    and "exclusive (fst (destroy_at this objs log))"
    and "exclusive (objs(this := Array_default))"
    by (rule exclusive_construct_move exclusive_move_assign exclusive_release_at
        exclusive_destroy_at exclusive_default)+
next
  assume "exclusive objs" "p = nullptr \<or> unheld_by_others objs this p"
  then show "exclusive (objs(this := Array_from_ptr p))"
    by (rule exclusive_adopt)
next
  assume "exclusive objs" "d log src = nullptr \<or> unheld_by_others objs this (d log src)"
  then show "exclusive (fst (snd (construct_copy d this src objs log)))"
    by (rule exclusive_construct_copy)
next
  assume "exclusive objs"
    "d (log @ [MxDestroyArray (mArray (objs this))]) src = nullptr
       \<or> unheld_by_others objs this (d (log @ [MxDestroyArray (mArray (objs this))]) src)"
  then show "exclusive (fst (snd (assign_copy d this src objs log)))"
    by (rule exclusive_assign_copy)
qed (simp_all add: Array_move_eq release_eq destroy_eq isValid_def)

text \<open>
  C9 on the store of two handles: the handle at 2 is moved into the handle at 1 and into a
  new handle at 3; the pointer 9, which no handle holds, is adopted and duplicated at 3; and
  the handle at 1, holding 5, is copy assigned from 7 when the runtime hands back the 5
  just destroyed.
\<close>

theorem moved_from_is_null_and_ownership_exclusive_witness:
  "\<not> isValid (fst (move_assign 1 2 two_handles []) 2)
   \<and> mArray (fst (move_assign 1 2 two_handles []) 1) = 7
   \<and> snd (move_assign 1 2 two_handles []) = [MxDestroyArray 5]
   \<and> snd (destroy (fst (move_assign 1 2 two_handles []) 2) [MxDestroyArray 5]) =
       [MxDestroyArray 5, MxDestroyArray nullptr]
   \<and> exclusive two_handles
   \<and> exclusive (construct_move 3 2 two_handles)
   \<and> exclusive (fst (move_assign 1 2 two_handles []))
   \<and> exclusive (snd (release_at 1 two_handles))
   \<and> exclusive (fst (destroy_at 1 two_handles []))
   \<and> exclusive (two_handles(3 := Array_default))
   \<and> exclusive (two_handles(3 := Array_from_ptr 9))
   \<and> exclusive (fst (snd (construct_copy (\<lambda>log p. 9) 3 7 two_handles [])))
   \<and> exclusive (fst (snd (assign_copy (\<lambda>log p. 5) 1 7 two_handles [])))"
proof -
  have distinct_objects: "(1::addr) \<noteq> 2" by simp
  have fresh_9: "(9::ptr) = nullptr \<or> unheld_by_others two_handles 3 9"
    by (rule disjI2) (rule unheld_by_others_two_handles_3_9)
  have freed_5: "(5::ptr) = nullptr \<or> unheld_by_others two_handles 1 5"
    by (rule disjI2) (rule unheld_by_others_two_handles_1_5)
  have m: "mArray (two_handles 1) = 5" "mArray (two_handles 2) = 7"
    by (simp_all add: two_handles_def)
  note at_1_2 = moved_from_is_null_and_ownership_exclusive
    [where this = 1 and other = 2 and objs = two_handles and log = "[]"
       and log' = "[MxDestroyArray 5]" and p = 5 and d = "\<lambda>log p. 5" and src = 7]
  note at_3_2 = moved_from_is_null_and_ownership_exclusive
    [where this = 3 and other = 2 and objs = two_handles and log = "[]"
       and p = 9 and d = "\<lambda>log p. 9" and src = 7]
  from at_1_2 at_3_2 distinct_objects fresh_9 freed_5 exclusive_two_handles m
  show ?thesis by simp
qed

text \<open>
  C9 as stated fails twice. A move assignment of a handle to itself leaves it valid: the
  moved-from handle does not hold the null pointer. And not every operation keeps ownership
  exclusive: the constructor from a raw pointer adopts a pointer another handle holds.
\<close>

theorem self_move_assign_keeps_handle_valid:
  "isValid (fst (move_assign 1 1 two_handles []) 1)
   \<and> exclusive two_handles
   \<and> \<not> exclusive (two_handles(3 := Array_from_ptr 5))"
proof (intro conjI)
  show "isValid (fst (move_assign 1 1 two_handles []) 1)"
    by (simp add: move_assign_def two_handles_def isValid_def)
  show "exclusive two_handles"
    by (rule exclusive_two_handles)
  show "\<not> exclusive (two_handles(3 := Array_from_ptr 5))"
  proof
    assume "exclusive (two_handles(3 := Array_from_ptr 5))"
    then have "(1::addr) \<noteq> 3 \<longrightarrow>
        isValid ((two_handles(3 := Array_from_ptr 5)) 1) \<longrightarrow>
        mArray ((two_handles(3 := Array_from_ptr 5)) 1) \<noteq>
        mArray ((two_handles(3 := Array_from_ptr 5)) 3)"
      unfolding exclusive_def by blast
    then show False
      by (simp add: two_handles_def isValid_def Array_from_ptr_def)
  qed
qed

section \<open>makeObjectArray\<close>

lemma makeObjectArray_eq:
  "makeObjectArray set_name src cn log =
     (if \<not> isValid src then (Inl (Exception ''invalid source array''), src, log)
      else case cn of
        None \<Rightarrow> (Inl (Exception ''invalid class name''), src, log)
      | Some name \<Rightarrow>
          (if set_name log (mArray src) name \<noteq> 0
           then Inl (Exception ''failed to set class name'')
           else Inr \<lparr>mArray = nullptr\<rparr>,
           src\<lparr>mArray := nullptr\<rparr>,
           log @ [MxSetClassName (mArray src) name (set_name log (mArray src) name)]))"
  by (simp add: makeObjectArray_def release_def Array_move_def Let_def split: option.splits)

text \<open>Whatever the arguments, an \<^verbatim>\<open>Array\<close> that \<open>makeObjectArray\<close> returns is invalid.\<close>

lemma makeObjectArray_result_invalid:
  assumes "fst (makeObjectArray set_name src cn log) = Inr r"
  shows "\<not> isValid r"
  using assms by (auto simp: makeObjectArray_eq isValid_def split: if_splits option.splits)

text \<open>
  C3. The three throws are as claimed (\<open>makeObjectArray_eq\<close>), but the success path does
  not return a valid \<^verbatim>\<open>Array\<close> owning the source array: \<^verbatim>\<open>srcArray.release()\<close> has
  already emptied the source when \<^verbatim>\<open>Array{std::move(srcArray)}\<close> moves from it. For a valid
  source holding the array 5, a class name and a native call that succeeds, the class name
  is set on the array 5 and the returned handle holds the null pointer; no handle holds 5.
\<close>

theorem makeObjectArray_returns_null_handle:
  "makeObjectArray (\<lambda>log p n. 0) \<lparr>mArray = 5\<rparr> (Some ''Point'') [] =
     (Inr \<lparr>mArray = nullptr\<rparr>, \<lparr>mArray = nullptr\<rparr>, [MxSetClassName 5 ''Point'' 0])
   \<and> \<not> isValid \<lparr>mArray = nullptr\<rparr>"
  by (simp add: makeObjectArray_def release_def Array_move_def isValid_def)

section \<open>toAscii\<close>

lemma toAscii_single_string:
  assumes "CharArrayCref_isSingleString gr gm a = Inr True"
  shows "toAscii gr gm gd gs a =
           Inl (ExceptionId ''matlabw:mx:toAscii''
                  (''Input must be a single string.'' @ [CHR 0x0A]))"
  using assms by (simp add: toAscii_def and_then_def)

text \<open>
  C4. The guard of \<open>toAscii\<close> is inverted: it throws
  \<open>''Input must be a single string.''\<close> exactly when the array is a single string. A
  \<open>1 \<times> 3\<close> array holding \<open>abc\<close> (rank 2, one row) is refused, and a \<open>2 \<times> 2\<close> array
  (rank 2, two rows) is converted instead of being refused.
\<close>

theorem toAscii_throws_on_single_string:
  "CharArrayCref_isSingleString (\<lambda>a. Inr 2) (\<lambda>a. Inr 1) (ArrayCref 1) = Inr True
   \<and> toAscii (\<lambda>a. Inr 2) (\<lambda>a. Inr 1) (\<lambda>a. Inr [0x61, 0x62, 0x63, 0])
        (\<lambda>p n. (0, ''abc'')) (ArrayCref 1) =
       Inl (ExceptionId ''matlabw:mx:toAscii''
              (''Input must be a single string.'' @ [CHR 0x0A]))
   \<and> CharArrayCref_isSingleString (\<lambda>a. Inr 2) (\<lambda>a. Inr 2) (ArrayCref 1) = Inr False
   \<and> toAscii (\<lambda>a. Inr 2) (\<lambda>a. Inr 2) (\<lambda>a. Inr [0x61, 0x62, 0x63, 0x64, 0])
        (\<lambda>p n. (0, ''abcd'')) (ArrayCref 1) = Inr ''abcd''"
  by (simp add: toAscii_def CharArrayCref_isSingleString_def and_then_def
      char_traits_length_def)

section \<open>Workspace variables\<close>

lemma getWorkspaceName_named:
  "is_workspace w \<Longrightarrow> getWorkspaceName w = Inr (workspace_name w)"
  by (auto simp: is_workspace_def getWorkspaceName_def workspace_name_def
      base_def global_def caller_def)

lemma getWorkspaceName_default:
  "\<not> is_workspace w \<Longrightarrow> getWorkspaceName w = Inl (Exception ''invalid workspace'')"
  by (simp add: is_workspace_def getWorkspaceName_def)

lemma workspace_name_cases:
  "is_workspace w \<Longrightarrow> workspace_name w \<in> {''base'', ''global'', ''caller''}"
  by (auto simp: is_workspace_def workspace_name_def base_def global_def caller_def)

lemma getVariable_eq:
  "getVariable gv w name log =
     (case name of
        None \<Rightarrow> (Inl (Exception ''invalid variable name''), log)
      | Some n \<Rightarrow>
          if \<not> is_workspace w then (Inl (Exception ''invalid workspace''), log)
          else if gv log (workspace_name w) n = nullptr
            then (Inr None, log @ [MexGetVariable (workspace_name w) n nullptr])
          else (Inr (Some \<lparr>mArray = gv log (workspace_name w) n\<rparr>),
                log @ [MexGetVariable (workspace_name w) n (gv log (workspace_name w) n),
                       MxDestroyArray nullptr]))"
proof (cases "is_workspace w")
  case True
  then show ?thesis
    by (simp add: getVariable_def getWorkspaceName_named Array_from_ptr_def Array_move_eq
        destroy_eq Let_def split: option.splits)
next
  case False
  then show ?thesis
    by (simp add: getVariable_def getWorkspaceName_default split: option.splits)
qed

lemma getVariableCref_eq:
  "getVariableCref gp w name log =
     (case name of
        None \<Rightarrow> (Inl (Exception ''invalid variable name''), log)
      | Some n \<Rightarrow>
          if \<not> is_workspace w then (Inl (Exception ''invalid workspace''), log)
          else (if gp log (workspace_name w) n = nullptr then Inr None
                else Inr (Some (ArrayCref (gp log (workspace_name w) n))),
                log @ [MexGetVariablePtr (workspace_name w) n (gp log (workspace_name w) n)]))"
proof (cases "is_workspace w")
  case True
  then show ?thesis
    by (simp add: getVariableCref_def getWorkspaceName_named Let_def split: option.splits)
next
  case False
  then show ?thesis
    by (simp add: getVariableCref_def getWorkspaceName_default split: option.splits)
qed

lemma putVariable_eq:
  "putVariable pv w name val log =
     (case name of
        None \<Rightarrow> (Inl (Exception ''invalid variable name''), log)
      | Some n \<Rightarrow>
          if \<not> is_workspace w then (Inl (Exception ''invalid workspace''), log)
          else (if pv log (workspace_name w) n (get_cref val) \<noteq> 0
                then Inl (Exception ''failed to put variable'') else Inr (),
                log @ [MexPutVariable (workspace_name w) n (get_cref val)
                         (pv log (workspace_name w) n (get_cref val))]))"
proof (cases "is_workspace w")
  case True
  then show ?thesis
    by (simp add: putVariable_def getWorkspaceName_named Let_def split: option.splits)
next
  case False
  then show ?thesis
    by (simp add: putVariable_def getWorkspaceName_default split: option.splits)
qed

text \<open>
  C5 (as amended). \<open>getVariable\<close> and \<open>getVariableCref\<close> throw on a null name without
  calling the runtime. On a name and one of the workspaces \<open>base\<close>, \<open>global\<close>, \<open>caller\<close>
  they make one lookup in the named workspace, return \<^verbatim>\<open>std::nullopt\<close> exactly when the
  lookup returns the null pointer, and otherwise return the pointer found: \<open>getVariable\<close>
  in an owning \<^verbatim>\<open>Array\<close> (after which the emptied temporary hands the null pointer to
  \<^verbatim>\<open>mxDestroyArray\<close>), \<open>getVariableCref\<close> in an \<^verbatim>\<open>ArrayCref\<close>. On a name and any other
  workspace value they throw \<open>Exception ''invalid workspace''\<close> without a lookup.
\<close>

theorem getVariable_null_name_nullopt_or_variable:
  "getVariable gv w None log = (Inl (Exception ''invalid variable name''), log)
   \<and> getVariableCref gp w None log = (Inl (Exception ''invalid variable name''), log)
   \<and> (is_workspace w \<longrightarrow>
        (fst (getVariable gv w (Some n) log) = Inr None) =
          (gv log (workspace_name w) n = nullptr)
      \<and> (fst (getVariableCref gp w (Some n) log) = Inr None) =
          (gp log (workspace_name w) n = nullptr)
      \<and> (gv log (workspace_name w) n \<noteq> nullptr \<longrightarrow>
           fst (getVariable gv w (Some n) log) =
             Inr (Some \<lparr>mArray = gv log (workspace_name w) n\<rparr>))
      \<and> (gp log (workspace_name w) n \<noteq> nullptr \<longrightarrow>
           fst (getVariableCref gp w (Some n) log) =
             Inr (Some (ArrayCref (gp log (workspace_name w) n))))
      \<and> snd (getVariable gv w (Some n) log) =
          log @ MexGetVariable (workspace_name w) n (gv log (workspace_name w) n) #
                (if gv log (workspace_name w) n = nullptr then []
                 else [MxDestroyArray nullptr])
      \<and> snd (getVariableCref gp w (Some n) log) =
          log @ [MexGetVariablePtr (workspace_name w) n (gp log (workspace_name w) n)]
      \<and> workspace_name w \<in> {''base'', ''global'', ''caller''})
   \<and> (\<not> is_workspace w \<longrightarrow>
        getVariable gv w (Some n) log = (Inl (Exception ''invalid workspace''), log)
      \<and> getVariableCref gp w (Some n) log = (Inl (Exception ''invalid workspace''), log))"
proof -
  have names: "is_workspace w \<longrightarrow> workspace_name w \<in> {''base'', ''global'', ''caller''}"
    using workspace_name_cases by blast
  then show ?thesis
    by (simp add: getVariable_eq getVariableCref_eq)
qed

text \<open>
  C5 for a variable \<open>x\<close> the runtime finds at the pointer 4 in the base workspace, for one
  it does not find in the caller workspace, and for the workspace value 3.
\<close>

theorem getVariable_null_name_nullopt_or_variable_witness:
  "fst (getVariable (\<lambda>log w n. 4) base (Some ''x'') []) = Inr (Some \<lparr>mArray = 4\<rparr>)
   \<and> fst (getVariableCref (\<lambda>log w n. 4) base (Some ''x'') []) = Inr (Some (ArrayCref 4))
   \<and> fst (getVariable (\<lambda>log w n. nullptr) caller (Some ''x'') []) = Inr None
   \<and> snd (getVariable (\<lambda>log w n. 4) base (Some ''x'') []) =
       [MexGetVariable ''base'' ''x'' 4, MxDestroyArray nullptr]
   \<and> snd (getVariable (\<lambda>log w n. nullptr) caller (Some ''x'') []) =
       [MexGetVariable ''caller'' ''x'' nullptr]
   \<and> getVariable (\<lambda>log w n. 4) 3 (Some ''x'') [] = (Inl (Exception ''invalid workspace''), [])"
proof -
  have named: "is_workspace base" "is_workspace caller" "\<not> is_workspace 3"
    by (simp_all add: is_workspace_def base_def global_def caller_def)
  have names: "workspace_name base = ''base''" "workspace_name caller = ''caller''"
    by (simp_all add: workspace_name_def base_def global_def caller_def)
  note found_4 = getVariable_null_name_nullopt_or_variable
    [where gv = "\<lambda>log w n. 4" and gp = "\<lambda>log w n. 4" and w = base and n = "''x''"
       and log = "[]"]
  note not_found = getVariable_null_name_nullopt_or_variable
    [where gv = "\<lambda>log w n. nullptr" and gp = "\<lambda>log w n. 4" and w = caller and n = "''x''"
       and log = "[]"]
  note no_workspace = getVariable_null_name_nullopt_or_variable
    [where gv = "\<lambda>log w n. 4" and gp = "\<lambda>log w n. 4" and w = 3 and n = "''x''"
       and log = "[]"]
  from found_4 not_found no_workspace named names show ?thesis by simp
qed

text \<open>
  C5 as stated fails for a workspace value outside the enumerators: with the name \<open>x\<close> and
  the value 3 both functions throw although the name is not null, and no lookup is made,
  so nothing is returned whatever the lookup would have returned.
\<close>

theorem getVariable_invalid_workspace_throws:
  "getVariable (\<lambda>log w n. 4) 3 (Some ''x'') [] = (Inl (Exception ''invalid workspace''), [])
   \<and> getVariableCref (\<lambda>log w n. 4) 3 (Some ''x'') [] =
       (Inl (Exception ''invalid workspace''), [])"
  by (simp add: getVariable_def getVariableCref_def getWorkspaceName_def
      base_def global_def caller_def)

text \<open>
  C6 (as amended). \<open>putVariable\<close> throws on a null name without calling the runtime. On a
  name and one of the workspaces \<open>base\<close>, \<open>global\<close>, \<open>caller\<close> it makes one call of
  \<^verbatim>\<open>mexPutVariable\<close> with the name of the workspace, the variable name and the array
  pointer, throws when the call returns a nonzero code and otherwise returns. On a name and
  any other workspace value it throws \<open>Exception ''invalid workspace''\<close> without a call.
\<close>

theorem putVariable_forwards_once:
  "putVariable pv w None val log = (Inl (Exception ''invalid variable name''), log)
   \<and> (is_workspace w \<longrightarrow>
        putVariable pv w (Some n) val log =
          (if pv log (workspace_name w) n (get_cref val) \<noteq> 0
           then Inl (Exception ''failed to put variable'') else Inr (),
           log @ [MexPutVariable (workspace_name w) n (get_cref val)
                    (pv log (workspace_name w) n (get_cref val))])
      \<and> workspace_name w \<in> {''base'', ''global'', ''caller''})
   \<and> (\<not> is_workspace w \<longrightarrow>
        putVariable pv w (Some n) val log = (Inl (Exception ''invalid workspace''), log))"
proof -
  have names: "is_workspace w \<longrightarrow> workspace_name w \<in> {''base'', ''global'', ''caller''}"
    using workspace_name_cases by blast
  then show ?thesis
    by (simp add: putVariable_eq)
qed

text \<open>
  C6 for the variable \<open>v\<close> and the array 1: put into the global workspace with success and
  with the error code 1, and put into the workspace value 3.
\<close>

theorem putVariable_forwards_once_witness:
  "putVariable (\<lambda>log w n p. 0) global (Some ''v'') (ArrayCref 1) [] =
     (Inr (), [MexPutVariable ''global'' ''v'' 1 0])
   \<and> putVariable (\<lambda>log w n p. 1) global (Some ''v'') (ArrayCref 1) [] =
     (Inl (Exception ''failed to put variable''), [MexPutVariable ''global'' ''v'' 1 1])
   \<and> putVariable (\<lambda>log w n p. 0) 3 (Some ''v'') (ArrayCref 1) [] =
     (Inl (Exception ''invalid workspace''), [])"
proof -
  have named: "is_workspace global" "\<not> is_workspace 3"
    by (simp_all add: is_workspace_def base_def global_def caller_def)
  have name: "workspace_name global = ''global''"
    by (simp add: workspace_name_def base_def global_def)
  note put_ok = putVariable_forwards_once
    [where pv = "\<lambda>log w n p. 0" and w = global and n = "''v''" and val = "ArrayCref 1"
       and log = "[]"]
  note put_fails = putVariable_forwards_once
    [where pv = "\<lambda>log w n p. 1" and w = global and n = "''v''" and val = "ArrayCref 1"
       and log = "[]"]
  note no_workspace = putVariable_forwards_once
    [where pv = "\<lambda>log w n p. 0" and w = 3 and n = "''v''" and val = "ArrayCref 1"
       and log = "[]"]
  from put_ok put_fails no_workspace named name show ?thesis by simp
qed

text \<open>
  C6 as stated fails for a workspace value outside the enumerators: with the name \<open>v\<close> and
  the value 3 \<open>putVariable\<close> throws although the name is not null and no native call has
  returned an error code: no call is made.
\<close>

theorem putVariable_invalid_workspace_throws:
  "putVariable (\<lambda>log w n p. 0) 3 (Some ''v'') (ArrayCref 1) [] =
     (Inl (Exception ''invalid workspace''), [])"
  by (simp add: putVariable_def getWorkspaceName_def base_def global_def caller_def)

section \<open>Struct fields\<close>

text \<open>
  C7. \<open>getField\<close> returns \<^verbatim>\<open>std::nullopt\<close> for the invalid field index (which is what
  \<open>getFieldIndex\<close> gives for a name the runtime does not find), throws for any other index
  that is not below \<open>getFieldCount\<close>, and for an index in range returns \<^verbatim>\<open>std::nullopt\<close>
  when \<^verbatim>\<open>mxGetFieldByNumber\<close> returns the null pointer and a reference to the field
  otherwise.
\<close>

theorem getField_nullopt_throw_or_field:
  "(fieldIndex = invalid \<longrightarrow> getField invalid nf gf a i fieldIndex = Inr None)
   \<and> (fieldIndex \<noteq> invalid \<and> to_size_t fieldIndex \<ge> getFieldCount nf a \<longrightarrow>
        getField invalid nf gf a i fieldIndex = Inl (Exception ''field index out of range''))
   \<and> (fieldIndex \<noteq> invalid \<and> to_size_t fieldIndex < getFieldCount nf a \<longrightarrow>
        getField invalid nf gf a i fieldIndex =
          (if gf (get_ref a) i (to_int fieldIndex) = nullptr then Inr None
           else Inr (Some (ArrayRef (gf (get_ref a) i (to_int fieldIndex))))))
   \<and> (fnum (get_ref a) fieldName = - 1 \<longrightarrow>
        getFieldIndex invalid fnum a fieldName = invalid
        \<and> getField_by_name invalid fnum nf gf a i fieldName = Inr None)"
  by (simp add: getField_def getField_by_name_def getFieldIndex_def Let_def)

text \<open>
  C7 on a struct array of two fields, with \<open>- 1\<close> for the invalid index: the invalid index,
  the index 5 out of range, the index 1 with and without a field, and a name not found.
\<close>

theorem getField_nullopt_throw_or_field_witness:
  "getField (- 1) (\<lambda>p. 2) (\<lambda>p i f. 9) (ArrayRef 1) 0 (- 1) = Inr None
   \<and> getField (- 1) (\<lambda>p. 2) (\<lambda>p i f. 9) (ArrayRef 1) 0 5 =
       Inl (Exception ''field index out of range'')
   \<and> getField (- 1) (\<lambda>p. 2) (\<lambda>p i f. 9) (ArrayRef 1) 0 1 = Inr (Some (ArrayRef 9))
   \<and> getField (- 1) (\<lambda>p. 2) (\<lambda>p i f. nullptr) (ArrayRef 1) 0 1 = Inr None
   \<and> getField_by_name (- 1) (\<lambda>p n. - 1) (\<lambda>p. 2) (\<lambda>p i f. 9) (ArrayRef 1) 0 (Some ''x'') =
       Inr None"
proof -
  have count: "getFieldCount (\<lambda>p. 2) (ArrayRef 1) = 2"
    by (simp add: getFieldCount_def to_size_t_def)
  have casts: "to_size_t 5 = 5" "to_size_t 1 = 1"
    by (simp_all add: to_size_t_def)
  note at_invalid = getField_nullopt_throw_or_field
    [where invalid = "- 1" and fieldIndex = "- 1" and nf = "\<lambda>p. 2" and gf = "\<lambda>p i f. 9"
       and a = "ArrayRef 1" and i = 0 and fnum = "\<lambda>p n. - 1" and fieldName = "Some ''x''"]
  note at_5 = getField_nullopt_throw_or_field
    [where invalid = "- 1" and fieldIndex = 5 and nf = "\<lambda>p. 2" and gf = "\<lambda>p i f. 9"
       and a = "ArrayRef 1" and i = 0 and fnum = "\<lambda>p n. - 1" and fieldName = "Some ''x''"]
  note at_1 = getField_nullopt_throw_or_field
    [where invalid = "- 1" and fieldIndex = 1 and nf = "\<lambda>p. 2" and gf = "\<lambda>p i f. 9"
       and a = "ArrayRef 1" and i = 0 and fnum = "\<lambda>p n. - 1" and fieldName = "Some ''x''"]
  note at_1_null = getField_nullopt_throw_or_field
    [where invalid = "- 1" and fieldIndex = 1 and nf = "\<lambda>p. 2" and gf = "\<lambda>p i f. nullptr"
       and a = "ArrayRef 1" and i = 0 and fnum = "\<lambda>p n. - 1" and fieldName = "Some ''x''"]
  from at_invalid at_5 at_1 at_1_null count casts show ?thesis by simp
qed

section \<open>Char arrays from UTF-16 strings\<close>

text \<open>
  \<open>makeCharArray_u16\<close> always asks the runtime for one dimension of one element more
  than the string has characters.
\<close>

lemma makeCharArray_u16_eq:
  "makeCharArray_u16 create str mem log =
     (if create log 1 [length str + 1] = nullptr
      then (Inl (Exception ''failed to create char array''), mem,
            log @ [MxCreateCharArray 1 [length str + 1] nullptr])
      else (Inr \<lparr>mArray = create log 1 [length str + 1]\<rparr>,
            mem(create log 1 [length str + 1] :=
                  str @ drop (length str) (mem (create log 1 [length str + 1]))),
            log @ [MxCreateCharArray 1 [length str + 1] (create log 1 [length str + 1])]))"
  by (simp add: makeCharArray_u16_def makeCharArray_def Array_from_ptr_def copy_into_def
      Let_def)

text \<open>
  C10. The round trip fails. For the two-character string \<open>ab\<close> the array is created
  with the dimensions \<open>[3]\<close> and holds \<open>ab\<close> and one more character. The runtime makes
  of \<^verbatim>\<open>mxCreateCharArray(1, [3])\<close> a \<open>3 \<times> 1\<close> array (rank 2, three rows, one column, three
  elements): on it \<open>isSingleString\<close> is false and the conversion back throws. For the empty
  string the array is \<open>1 \<times> 1\<close> and the conversion gives a string of one character.
\<close>

theorem makeCharArray_u16_has_one_element_more:
  "makeCharArray_u16 (\<lambda>log ndim dims. 1) [0x61, 0x62] (\<lambda>p. [0, 0, 0]) [] =
     (Inr \<lparr>mArray = 1\<rparr>, (\<lambda>p. [0, 0, 0])(1 := [0x61, 0x62, 0]), [MxCreateCharArray 1 [3] 1])
   \<and> getSize (\<lambda>p. 3) \<lparr>mArray = 1\<rparr> = Inr 3
   \<and> CharArray_isSingleString (\<lambda>p. 2) (\<lambda>p. 3) \<lparr>mArray = 1\<rparr> = Inr False
   \<and> CharArray_u16string_view (\<lambda>p. 2) (\<lambda>p. 3) (\<lambda>p. 1) (\<lambda>a. Inr [0x61, 0x62, 0])
        \<lparr>mArray = 1\<rparr> =
       Inl (ExceptionId ''matlabw:mx:CharArray:operatorU16StringView''
              ''array must be a single string'')
   \<and> makeCharArray_u16 (\<lambda>log ndim dims. 1) [] (\<lambda>p. [0]) [] =
       (Inr \<lparr>mArray = 1\<rparr>, (\<lambda>p. [0])(1 := [0]), [MxCreateCharArray 1 [1] 1])
   \<and> CharArray_u16string_view (\<lambda>p. 2) (\<lambda>p. 1) (\<lambda>p. 1) (\<lambda>a. Inr [0]) \<lparr>mArray = 1\<rparr> = Inr [0]"
  by (simp add: makeCharArray_u16_eq CharArray_u16string_view_def CharArray_isSingleString_def
      getSize_def getRank_def getDimM_def getDimN_def checkValid_def isValid_def and_then_def)

end
